theory Spec2Isabelle
  imports Main "HOL-Library.Word" "HOL-Library.AList"
begin

unbundle bit_operations_syntax

section \<open>Machine integers and the binary framing\<close>

text \<open>
  Go's \<^verbatim>\<open>int64\<close> and \<^verbatim>\<open>int32\<close> values are modelled as \<open>int\<close>; every arithmetic
  operation and conversion of the source that can leave the range is followed by the
  two's-complement wrap-around, written out with \<open>mod\<close>.  A byte is an \<open>8 word\<close>,
  a file is the list of its bytes.
\<close>

type_synonym byte = "8 word"

definition int64 :: "int \<Rightarrow> int" where
  "int64 x = (x + 2 ^ 63) mod 2 ^ 64 - 2 ^ 63"

definition int32 :: "int \<Rightarrow> int" where
  "int32 x = (x + 2 ^ 31) mod 2 ^ 32 - 2 ^ 31"

text \<open>\<^verbatim>\<open>binary.Write(w, binary.BigEndian, v)\<close> for a fixed-size integer of \<open>n\<close> bytes:
  the low \<open>8 * n\<close> bits of \<open>v\<close>, most significant byte first.\<close>

fun be_bytes :: "nat \<Rightarrow> int \<Rightarrow> byte list" where
  "be_bytes 0 x = []"
| "be_bytes (Suc n) x = be_bytes n (x div 256) @ [word_of_int x]"

definition be_int :: "byte list \<Rightarrow> int" where
  "be_int bs = foldl (\<lambda>a b. a * 256 + uint b) 0 bs"

definition put_int64 :: "int \<Rightarrow> byte list" where
  "put_int64 v = be_bytes 8 v"

definition put_int32 :: "int \<Rightarrow> byte list" where
  "put_int32 v = be_bytes 4 v"

definition put_uint32 :: "int \<Rightarrow> byte list" where
  "put_uint32 v = be_bytes 4 v"

definition get_int64 :: "byte list \<Rightarrow> int" where
  "get_int64 bs = int64 (be_int bs)"

definition get_int32 :: "byte list \<Rightarrow> int" where
  "get_int32 bs = int32 (be_int bs)"

definition get_uint32 :: "byte list \<Rightarrow> int" where
  "get_uint32 bs = be_int bs mod 2 ^ 32"

text \<open>\<^verbatim>\<open>crc32.ChecksumIEEE\<close> of the Go standard library: the reflected CRC-32 with
  polynomial \<open>0xEDB88320\<close>, initial value and final complement \<open>0xFFFFFFFF\<close>.\<close>

definition crc_shift :: "32 word \<Rightarrow> 32 word" where
  "crc_shift c = (if bit c 0 then drop_bit 1 c XOR 0xEDB88320 else drop_bit 1 c)"

definition crc_update :: "32 word \<Rightarrow> byte \<Rightarrow> 32 word" where
  "crc_update c b = (crc_shift ^^ 8) (c XOR ucast b)"

definition ChecksumIEEE :: "byte list \<Rightarrow> int" where
  "ChecksumIEEE bs = uint (NOT (foldl crc_update 0xFFFFFFFF bs))"

definition SegmentMaxBytes :: int where
  "SegmentMaxBytes = 128 * 1024 * 1024"

definition IndexInterval :: int where
  "IndexInterval = 4096"

section \<open>Errors, faults and files\<close>

text \<open>
  The source builds its errors with \<^verbatim>\<open>fmt.Errorf\<close>; each message is a constructor
  here.  \<open>Panic\<close> is a Go run-time panic (index out of range, \<^verbatim>\<open>make\<close> with a
  negative length).  \<open>IOError\<close> is an error of the operating system.
\<close>

datatype error =
    EOF
  | ErrUnexpectedEOF
  | ErrClosed
  | IOError
  | OutOfRange int int int          \<comment> \<open>"offset %d out of range [%d, %d)"\<close>
  | OffsetNotFound int              \<comment> \<open>"offset %d not found"\<close>
  | NotFoundInPartition int int     \<comment> \<open>"offset %d not found in partition %d"\<close>
  | TopicExists string              \<comment> \<open>"topic %s already exists"\<close>
  | TopicNotFound string            \<comment> \<open>"topic %s not found"\<close>
  | PartitionNotFound int string    \<comment> \<open>"partition %d not found in topic %s"\<close>
  | Panic

text \<open>
  The environment's failures are a parameter of every operation that touches the disk:
  \<open>WriteFault k n\<close> makes the \<open>k\<close>-th write of the call fail after \<open>n\<close> bytes of its
  buffer reached the file, \<open>OpenFault k j\<close> makes step \<open>j\<close> of the \<open>k\<close>-th
  \<^verbatim>\<open>NewSegment\<close> of the call fail (0 \<^verbatim>\<open>MkdirAll\<close>, 1 and 2 the two \<^verbatim>\<open>OpenFile\<close>,
  3 \<^verbatim>\<open>Stat\<close>), \<open>ReadDirFault\<close> fails \<^verbatim>\<open>os.ReadDir\<close>.
\<close>

datatype fault = NoFault | ReadDirFault | OpenFault nat nat | WriteFault nat nat

text \<open>A write to a file opened with \<^verbatim>\<open>O_APPEND\<close>: the bytes go to the end.\<close>

definition file_write :: "fault \<Rightarrow> nat \<Rightarrow> byte list \<Rightarrow> byte list \<Rightarrow> error option \<times> byte list" where
  "file_write flt k f bs =
     (case flt of
        WriteFault i n \<Rightarrow> if i = k then (Some IOError, f @ take n bs) else (None, f @ bs)
      | _ \<Rightarrow> (None, f @ bs))"

text \<open>\<^verbatim>\<open>io.ReadFull\<close> of \<open>n\<close> bytes at offset \<open>pos\<close> of the file \<open>f\<close>, as
  \<^verbatim>\<open>binary.Read\<close> calls it: the bytes and the new offset, \<open>EOF\<close> when no byte is
  left, \<open>ErrUnexpectedEOF\<close> when fewer than \<open>n\<close> are; nothing is read for \<open>n = 0\<close>.\<close>

definition read_full :: "nat \<Rightarrow> byte list \<Rightarrow> nat \<Rightarrow> (error + byte list) \<times> nat" where
  "read_full n f pos =
     (if n = 0 then (Inr [], pos)
      else if length f \<le> pos then (Inl EOF, pos)
      else if length f < pos + n then (Inl ErrUnexpectedEOF, length f)
      else (Inr (take n (drop pos f)), pos + n))"

section \<open>Segment\<close>

record LogEntry =
  Offset :: int
  Payload :: "byte list"

record IndexEntry =
  RelativeOffset :: int
  Position :: int

text \<open>
  The two files of a segment, by content.  The \<^verbatim>\<open>Segment\<close> struct holds the handles:
  \<open>logPos\<close> is the offset of the log handle (moved by \<^verbatim>\<open>Seek\<close> and by reads),
  \<open>closed\<close> says that \<^verbatim>\<open>Close\<close> has run.  The mutex is not modelled.
\<close>

record SegFiles =
  logFile :: "byte list"
  indexFile :: "byte list"

record Segment =
  baseOffset :: int
  logPos :: nat
  size_S :: int
  nextOffset :: int
  indexEntries :: "IndexEntry list"
  closed :: bool

definition log_write :: "fault \<Rightarrow> nat \<Rightarrow> SegFiles \<Rightarrow> byte list \<Rightarrow> error option \<times> SegFiles" where
  "log_write flt k fl bs =
     (case file_write flt k (logFile fl) bs of (e, f') \<Rightarrow> (e, fl\<lparr>logFile := f'\<rparr>))"

definition index_write :: "fault \<Rightarrow> nat \<Rightarrow> SegFiles \<Rightarrow> byte list \<Rightarrow> error option \<times> SegFiles" where
  "index_write flt k fl bs =
     (case file_write flt k (indexFile fl) bs of (e, f') \<Rightarrow> (e, fl\<lparr>indexFile := f'\<rparr>))"

text \<open>\<^verbatim>\<open>Segment.Append\<close>.  The entry is passed by value: the assignment to
  \<^verbatim>\<open>entry.Offset\<close> changes the callee's copy only, so the function returns the error,
  the files and the segment, and no entry.\<close>

definition Segment_Append ::
  "fault \<Rightarrow> SegFiles \<Rightarrow> Segment \<Rightarrow> LogEntry \<Rightarrow> error option \<times> SegFiles \<times> Segment" where
  "Segment_Append flt fl s entry0 =
     (if closed s then (Some ErrClosed, fl, s) else
      let entry = entry0\<lparr>Offset := nextOffset s\<rparr>;
          crc = ChecksumIEEE (Payload entry);
          position = int (length (logFile fl));
          s0 = s\<lparr>logPos := length (logFile fl)\<rparr>;
          (e1, fl1) = log_write flt 0 fl (put_int64 (Offset entry)) in
      if e1 \<noteq> None then (e1, fl1, s0\<lparr>logPos := length (logFile fl1)\<rparr>) else
      let (e2, fl2) = log_write flt 1 fl1 (put_int32 (int32 (int (length (Payload entry))))) in
      if e2 \<noteq> None then (e2, fl2, s0\<lparr>logPos := length (logFile fl2)\<rparr>) else
      let (e3, fl3) = log_write flt 2 fl2 (put_uint32 crc) in
      if e3 \<noteq> None then (e3, fl3, s0\<lparr>logPos := length (logFile fl3)\<rparr>) else
      let (e4, fl4) = log_write flt 3 fl3 (Payload entry) in
      if e4 \<noteq> None then (e4, fl4, s0\<lparr>logPos := length (logFile fl4)\<rparr>) else
      let s1 = s0\<lparr>logPos := length (logFile fl4),
                  size_S := int64 (position + 8 + 4 + 4 + int64 (int (length (Payload entry))))\<rparr> in
      if indexEntries s1 = [] \<or>
         int64 (position - Position (last (indexEntries s1))) \<ge> IndexInterval
      then
        let indexEntry = \<lparr>RelativeOffset = int32 (int64 (Offset entry - baseOffset s1)),
                          Position = int32 position\<rparr>;
            (e5, fl5) = index_write flt 4 fl4 (put_int32 (RelativeOffset indexEntry)) in
        if e5 \<noteq> None then (e5, fl5, s1) else
        let (e6, fl6) = index_write flt 5 fl5 (put_int32 (Position indexEntry)) in
        if e6 \<noteq> None then (e6, fl6, s1) else
        (None, fl6, s1\<lparr>indexEntries := indexEntries s1 @ [indexEntry],
                        nextOffset := int64 (nextOffset s1 + 1)\<rparr>)
      else (None, fl4, s1\<lparr>nextOffset := int64 (nextOffset s1 + 1)\<rparr>))"

text \<open>\<^verbatim>\<open>sort.Search\<close> of the Go standard library: binary search for the smallest index
  in \<open>[0, n)\<close> at which \<open>f\<close> holds (\<open>n\<close> when there is none), for a monotone \<open>f\<close>.\<close>

function Search_loop :: "(nat \<Rightarrow> bool) \<Rightarrow> nat \<Rightarrow> nat \<Rightarrow> nat" where
  "Search_loop f i j =
     (if i < j then
        (if \<not> f ((i + j) div 2) then Search_loop f ((i + j) div 2 + 1) j
         else Search_loop f i ((i + j) div 2))
      else i)"
  by pat_completeness auto
termination
  by (relation "measure (\<lambda>(f, i, j). j - i)") auto

declare Search_loop.simps [simp del]

definition Search :: "nat \<Rightarrow> (nat \<Rightarrow> bool) \<Rightarrow> nat" where
  "Search n f = Search_loop f 0 n"

definition findPosition :: "Segment \<Rightarrow> int \<Rightarrow> int" where
  "findPosition s offset =
     (let relativeOffset = int32 (int64 (offset - baseOffset s));
          idx = Search (length (indexEntries s))
                  (\<lambda>i. RelativeOffset (indexEntries s ! i) > relativeOffset) in
      if idx = 0 then 0 else Position (indexEntries s ! (idx - 1)))"

lemma read_full_Inr:
  "read_full n f pos = (Inr bs, p) \<Longrightarrow> p = pos + n \<and> pos + n \<le> length f \<or> n = 0 \<and> p = pos"
  by (auto simp: read_full_def split: if_splits)

lemma read_full_pos:
  "read_full n f pos = (Inr bs, p) \<Longrightarrow> 0 < n \<Longrightarrow> pos < p \<and> p \<le> length f"
  by (auto simp: read_full_def split: if_splits)

lemma read_full_mono:
  "read_full n f pos = (Inr bs, p) \<Longrightarrow> pos \<le> p"
  by (auto simp: read_full_def split: if_splits)

text \<open>The scan loop of \<^verbatim>\<open>Segment.Read\<close>, from handle offset \<open>pos\<close>: the result and the
  handle offset it leaves.\<close>

function read_scan :: "byte list \<Rightarrow> nat \<Rightarrow> int \<Rightarrow> (error + LogEntry) \<times> nat" where
  "read_scan f pos offset =
     (case read_full 8 f pos of
        (Inl e, p1) \<Rightarrow> (Inl e, p1)
      | (Inr b1, p1) \<Rightarrow>
     (case read_full 4 f p1 of
        (Inl e, p2) \<Rightarrow> (Inl e, p2)
      | (Inr b2, p2) \<Rightarrow>
     (case read_full 4 f p2 of
        (Inl e, p3) \<Rightarrow> (Inl e, p3)
      | (Inr b3, p3) \<Rightarrow>
        if get_int32 b2 < 0 then (Inl Panic, p3) else
     (case read_full (nat (get_int32 b2)) f p3 of
        (Inl e, p4) \<Rightarrow> (Inl e, p4)
      | (Inr payload, p4) \<Rightarrow>
        if get_int64 b1 = offset then (Inr \<lparr>Offset = get_int64 b1, Payload = payload\<rparr>, p4)
        else if get_int64 b1 > offset then (Inl (OffsetNotFound offset), p4)
        else read_scan f p4 offset))))"
  by pat_completeness auto
termination
proof (relation "measure (\<lambda>(f, pos, offset). length f - pos)", goal_cases)
  case 1
  show ?case by simp
next
  case (2 f pos offset x1 p1 b1 x2 p2 b2 x3 p3 b3 x4 p4 payload)
  from 2 have a: "read_full 8 f pos = (Inr b1, p1)" "read_full 4 f p1 = (Inr b2, p2)"
    "read_full 4 f p2 = (Inr b3, p3)" "read_full (nat (get_int32 b2)) f p3 = (Inr payload, p4)"
    by simp_all
  have "pos < p1" "p1 \<le> length f" using read_full_pos [OF a(1)] by simp_all
  moreover have "p1 < p2" "p2 \<le> length f" using read_full_pos [OF a(2)] by simp_all
  moreover have "p2 < p3" "p3 \<le> length f" using read_full_pos [OF a(3)] by simp_all
  moreover have "p3 \<le> p4" using read_full_mono [OF a(4)] .
  moreover have "p4 \<le> length f" using read_full_Inr [OF a(4)] \<open>p3 \<le> length f\<close> by auto
  ultimately show ?case by simp
qed

declare read_scan.simps [simp del]

definition Segment_Read :: "SegFiles \<Rightarrow> Segment \<Rightarrow> int \<Rightarrow> (error + LogEntry) \<times> Segment" where
  "Segment_Read fl s offset =
     (if offset < baseOffset s \<or> offset \<ge> nextOffset s
      then (Inl (OutOfRange offset (baseOffset s) (nextOffset s)), s)
      else if closed s then (Inl ErrClosed, s)
      else
        let position = findPosition s offset;
            pos0 = (if position < 0 then logPos s else nat position) in
        case read_scan (logFile fl) pos0 offset of (r, pos') \<Rightarrow> (r, s\<lparr>logPos := pos'\<rparr>))"

text \<open>\<^verbatim>\<open>Segment.recover\<close>, first loop: the index file is read pair by pair.  A clean
  end of file before a pair ends the loop; any other failed read is returned.\<close>

function load_index :: "byte list \<Rightarrow> nat \<Rightarrow> IndexEntry list \<Rightarrow> error option \<times> IndexEntry list" where
  "load_index f pos entries =
     (case read_full 4 f pos of
        (Inl e, p1) \<Rightarrow> if e = EOF then (None, entries) else (Some e, entries)
      | (Inr b1, p1) \<Rightarrow>
     (case read_full 4 f p1 of
        (Inl e, p2) \<Rightarrow> (Some e, entries)
      | (Inr b2, p2) \<Rightarrow>
        load_index f p2
          (entries @ [\<lparr>RelativeOffset = get_int32 b1, Position = get_int32 b2\<rparr>])))"
  by pat_completeness auto
termination
proof (relation "measure (\<lambda>(f, pos, entries). length f - pos)", goal_cases)
  case 1
  show ?case by simp
next
  case (2 f pos entries x1 p1 b1 x2 p2 b2)
  from 2 have a: "read_full 4 f pos = (Inr b1, p1)" "read_full 4 f p1 = (Inr b2, p2)"
    by simp_all
  have "pos < p1" "p1 \<le> length f" using read_full_pos [OF a(1)] by simp_all
  moreover have "p1 < p2" "p2 \<le> length f" using read_full_pos [OF a(2)] by simp_all
  ultimately show ?case by simp
qed

declare load_index.simps [simp del]

text \<open>Second loop: the log file is scanned from its start.  \<open>position\<close> is the handle
  offset after the last record that passed the CRC check, \<open>nxt\<close> the segment's
  \<^verbatim>\<open>nextOffset\<close>.  The result is the error, the log file (truncated at \<open>position\<close>
  on a CRC mismatch), the handle offset and \<^verbatim>\<open>nextOffset\<close>.\<close>

function recover_scan ::
  "byte list \<Rightarrow> nat \<Rightarrow> nat \<Rightarrow> int \<Rightarrow> error option \<times> byte list \<times> nat \<times> int" where
  "recover_scan f pos position nxt =
     (case read_full 8 f pos of
        (Inl e, p1) \<Rightarrow> if e = EOF then (None, f, p1, nxt) else (Some e, f, p1, nxt)
      | (Inr b1, p1) \<Rightarrow>
     (case read_full 4 f p1 of
        (Inl e, p2) \<Rightarrow> (Some e, f, p2, nxt)
      | (Inr b2, p2) \<Rightarrow>
     (case read_full 4 f p2 of
        (Inl e, p3) \<Rightarrow> (Some e, f, p3, nxt)
      | (Inr b3, p3) \<Rightarrow>
        if get_int32 b2 < 0 then (Some Panic, f, p3, nxt) else
     (case read_full (nat (get_int32 b2)) f p3 of
        (Inl e, p4) \<Rightarrow> (Some e, f, p4, nxt)
      | (Inr payload, p4) \<Rightarrow>
        if get_uint32 b3 \<noteq> ChecksumIEEE payload then (None, take position f, p4, nxt)
        else recover_scan f p4 p4 (int64 (get_int64 b1 + 1))))))"
  by pat_completeness auto
termination
proof (relation "measure (\<lambda>(f, pos, position, nxt). length f - pos)", goal_cases)
  case 1
  show ?case by simp
next
  case (2 f pos position nxt x1 p1 b1 x2 p2 b2 x3 p3 b3 x4 p4 payload)
  from 2 have a: "read_full 8 f pos = (Inr b1, p1)" "read_full 4 f p1 = (Inr b2, p2)"
    "read_full 4 f p2 = (Inr b3, p3)" "read_full (nat (get_int32 b2)) f p3 = (Inr payload, p4)"
    by simp_all
  have "pos < p1" "p1 \<le> length f" using read_full_pos [OF a(1)] by simp_all
  moreover have "p1 < p2" "p2 \<le> length f" using read_full_pos [OF a(2)] by simp_all
  moreover have "p2 < p3" "p3 \<le> length f" using read_full_pos [OF a(3)] by simp_all
  moreover have "p3 \<le> p4" using read_full_mono [OF a(4)] .
  moreover have "p4 \<le> length f" using read_full_Inr [OF a(4)] \<open>p3 \<le> length f\<close> by auto
  ultimately show ?case by simp
qed

declare recover_scan.simps [simp del]

definition recover :: "SegFiles \<Rightarrow> Segment \<Rightarrow> error option \<times> SegFiles \<times> Segment" where
  "recover fl s =
     (case load_index (indexFile fl) 0 (indexEntries s) of
        (Some e, entries) \<Rightarrow> (Some e, fl, s\<lparr>indexEntries := entries\<rparr>)
      | (None, entries) \<Rightarrow>
        (case recover_scan (logFile fl) 0 0 (nextOffset s) of
           (e, f', pos', nxt') \<Rightarrow>
             (e, fl\<lparr>logFile := f'\<rparr>,
              s\<lparr>indexEntries := entries, logPos := pos', nextOffset := nxt'\<rparr>)))"

definition Segment_Close :: "Segment \<Rightarrow> Segment" where
  "Segment_Close s = s\<lparr>closed := True\<rparr>"

definition Size :: "Segment \<Rightarrow> int" where
  "Size s = size_S s"

definition BaseOffset :: "Segment \<Rightarrow> int" where
  "BaseOffset s = baseOffset s"

definition NextOffset :: "Segment \<Rightarrow> int" where
  "NextOffset s = nextOffset s"

text \<open>
  A partition directory is the list of its entries: the base offset in a file name
  with the two files of that name (the name is \<^verbatim>\<open>%020d\<close> of the base offset, so the
  base offset identifies the files).  A base offset without an entry has no \<^verbatim>\<open>.log\<close>
  file; a missing \<^verbatim>\<open>.index\<close> file is an empty one, since every open creates it.
\<close>

type_synonym Dir = "(int \<times> SegFiles) list"

definition open_files :: "Dir \<Rightarrow> int \<Rightarrow> SegFiles" where
  "open_files d b = (case map_of d b of None \<Rightarrow> \<lparr>logFile = [], indexFile = []\<rparr> | Some fl \<Rightarrow> fl)"

text \<open>\<^verbatim>\<open>NewSegment\<close>: the result and the directory afterwards.  On an error of
  \<^verbatim>\<open>recover\<close> the segment is closed and dropped.\<close>

definition NewSegment :: "fault \<Rightarrow> Dir \<Rightarrow> int \<Rightarrow> (error + Segment) \<times> Dir" where
  "NewSegment flt d b =
     (if flt = OpenFault 0 0 then (Inl IOError, d)
      else if flt = OpenFault 0 1 then (Inl IOError, d)
      else
        let fl = open_files d b; d1 = AList.update b fl d in
        if flt = OpenFault 0 2 then (Inl IOError, d1)
        else if flt = OpenFault 0 3 then (Inl IOError, d1)
        else
          let segment = \<lparr>baseOffset = b, logPos = 0, size_S = int (length (logFile fl)),
                          nextOffset = b, indexEntries = [], closed = False\<rparr> in
          case recover fl segment of
            (Some err, fl', s') \<Rightarrow> (Inl err, AList.update b fl' d1)
          | (None, fl', s') \<Rightarrow> (Inr s', AList.update b fl' d1))"

text \<open>The fault as the \<open>k\<close>-th \<^verbatim>\<open>NewSegment\<close> of a call sees it.\<close>

definition fault_at :: "nat \<Rightarrow> fault \<Rightarrow> fault" where
  "fault_at k flt =
     (case flt of OpenFault i j \<Rightarrow> if i = k then OpenFault 0 j else NoFault | _ \<Rightarrow> NoFault)"

fun load_loop :: "fault \<Rightarrow> Dir \<Rightarrow> int list \<Rightarrow> nat \<Rightarrow> Segment list \<Rightarrow> (error + Segment list) \<times> Dir" where
  "load_loop flt d [] k segs = (Inr segs, d)"
| "load_loop flt d (b # bs) k segs =
     (case NewSegment (fault_at k flt) d b of
        (Inl err, d') \<Rightarrow> (Inl err, d')
      | (Inr segment, d') \<Rightarrow> load_loop flt d' bs (Suc k) (segs @ [segment]))"

text \<open>\<^verbatim>\<open>LoadSegments\<close>: the base offsets of the \<^verbatim>\<open>.log\<close> files in ascending order,
  each opened with \<^verbatim>\<open>NewSegment\<close>.\<close>

definition LoadSegments :: "fault \<Rightarrow> Dir \<Rightarrow> (error + Segment list) \<times> Dir" where
  "LoadSegments flt d =
     (if flt = ReadDirFault then (Inl IOError, d)
      else load_loop flt d (sort (remdups (map fst d))) 0 [])"

section \<open>Partition\<close>

text \<open>\<open>dir\<close> is the content of the partition's directory, \<open>segments\<close> the slice of
  segments; a segment's files are those of its base offset in \<open>dir\<close>.\<close>

record Partition =
  pid :: int
  dir :: Dir
  segments :: "Segment list"

definition NewPartition :: "fault \<Rightarrow> Dir \<Rightarrow> int \<Rightarrow> error + Partition" where
  "NewPartition flt d i =
     (case LoadSegments flt d of
        (Inl err, d') \<Rightarrow> Inl err
      | (Inr segs, d') \<Rightarrow>
          if segs = [] then
            (case NewSegment (fault_at 0 flt) d' 0 of
               (Inl err, d'') \<Rightarrow> Inl err
             | (Inr segment, d'') \<Rightarrow> Inr \<lparr>pid = i, dir = d'', segments = [segment]\<rparr>)
          else Inr \<lparr>pid = i, dir = d', segments = segs\<rparr>)"

text \<open>The call \<^verbatim>\<open>activeSegment.Append(entry)\<close> on the last segment of the slice, with
  the files of its base offset.\<close>

definition append_active :: "fault \<Rightarrow> Partition \<Rightarrow> LogEntry \<Rightarrow> error option \<times> Partition" where
  "append_active flt p entry =
     (let activeSegment = last (segments p) in
      case map_of (dir p) (baseOffset activeSegment) of
        None \<Rightarrow> (Some IOError, p)
      | Some fl \<Rightarrow>
        (case Segment_Append flt fl activeSegment entry of
           (e, fl', s') \<Rightarrow>
             (e, p\<lparr>dir := AList.update (baseOffset activeSegment) fl' (dir p),
                   segments := butlast (segments p) @ [s']\<rparr>)))"

text \<open>\<^verbatim>\<open>Partition.Append\<close>.  \<^verbatim>\<open>entry\<close> is the caller's variable: the callee works on
  a copy, and the value returned is \<^verbatim>\<open>entry.Offset\<close> of the caller's.\<close>

definition Partition_Append :: "fault \<Rightarrow> Partition \<Rightarrow> byte list \<Rightarrow> (error + int) \<times> Partition" where
  "Partition_Append flt p payload =
     (if segments p = [] then (Inl Panic, p) else
      let activeSegment = last (segments p) in
      case
        (if Size activeSegment \<ge> SegmentMaxBytes then
           (let newBaseOffset = NextOffset activeSegment in
            case NewSegment (fault_at 0 flt) (dir p) newBaseOffset of
              (Inl err, d') \<Rightarrow> (Some err, p\<lparr>dir := d'\<rparr>)
            | (Inr newSegment, d') \<Rightarrow>
                (None, p\<lparr>dir := d', segments := segments p @ [newSegment]\<rparr>))
         else (None, p))
      of
        (Some err, p1) \<Rightarrow> (Inl err, p1)
      | (None, p1) \<Rightarrow>
          let entry = \<lparr>Offset = 0, Payload = payload\<rparr> in
          (case append_active flt p1 entry of
             (Some err, p2) \<Rightarrow> (Inl err, p2)
           | (None, p2) \<Rightarrow> (Inr (Offset entry), p2)))"

fun read_segments :: "Dir \<Rightarrow> int \<Rightarrow> int \<Rightarrow> Segment list \<Rightarrow> (error + LogEntry) \<times> Segment list" where
  "read_segments d i offset [] = (Inl (NotFoundInPartition offset i), [])"
| "read_segments d i offset (segment # rest) =
     (if offset \<ge> BaseOffset segment \<and> offset < NextOffset segment then
        (case Segment_Read (open_files d (baseOffset segment)) segment offset of
           (r, s') \<Rightarrow> (r, s' # rest))
      else
        (case read_segments d i offset rest of (r, rest') \<Rightarrow> (r, segment # rest')))"

definition Partition_Read :: "Partition \<Rightarrow> int \<Rightarrow> (error + LogEntry) \<times> Partition" where
  "Partition_Read p offset =
     (case read_segments (dir p) (pid p) offset (segments p) of
        (r, segs') \<Rightarrow> (r, p\<lparr>segments := segs'\<rparr>))"

definition Partition_NextOffset :: "Partition \<Rightarrow> int" where
  "Partition_NextOffset p =
     (if segments p = [] then 0 else NextOffset (last (segments p)))"

definition Partition_Close :: "Partition \<Rightarrow> Partition" where
  "Partition_Close p = p\<lparr>segments := map Segment_Close (segments p)\<rparr>"

section \<open>Registry\<close>

text \<open>A slot of \<^verbatim>\<open>Topic.Partitions\<close> is a pointer: \<open>None\<close> is \<^verbatim>\<open>nil\<close>.\<close>

record Topic =
  Name :: string
  Partitions :: "Partition option list"

record Registry =
  dataDir :: string
  topics :: "string \<rightharpoonup> Topic"

definition NewRegistry :: "string \<Rightarrow> Registry" where
  "NewRegistry d = \<lparr>dataDir = d, topics = Map.empty\<rparr>"

text \<open>The clean-up loop of \<^verbatim>\<open>CreateTopic\<close>: \<^verbatim>\<open>Close\<close> on the slots below \<open>i\<close>.\<close>

definition close_created :: "nat \<Rightarrow> Partition option list \<Rightarrow> Partition option list" where
  "close_created i parts = map (map_option Partition_Close) (take i parts) @ drop i parts"

text \<open>The creation loop of \<^verbatim>\<open>CreateTopic\<close>.  \<open>faults i\<close> is the fault that the
  \<open>i\<close>-th \<^verbatim>\<open>NewPartition\<close> meets and \<open>disk i\<close> the content of the directory
  \<^verbatim>\<open>partition<i>\<close> of the topic when it is opened.  The counter stays below
  \<open>numPartitions\<close>, an \<^verbatim>\<open>int32\<close>, so its increment does not wrap.
  The clean-up loop runs when \<^verbatim>\<open>NewPartition\<close> returns an error.  \<open>Panic\<close> is not a
  returned error: a panic inside \<^verbatim>\<open>NewPartition\<close> unwinds \<^verbatim>\<open>CreateTopic\<close>, which
  neither closes anything nor returns; the result \<open>Some Panic\<close> stands for that, with
  the slice as it was when the panic was raised.\<close>

function create_loop ::
  "(nat \<Rightarrow> fault) \<Rightarrow> (int \<Rightarrow> Dir) \<Rightarrow> int \<Rightarrow> int \<Rightarrow> Partition option list
     \<Rightarrow> error option \<times> Partition option list" where
  "create_loop faults disk numPartitions i parts =
     (if i < numPartitions then
        (case NewPartition (faults (nat i)) (disk i) i of
           Inl err \<Rightarrow>
             if err = Panic then (Some Panic, parts)
             else (Some err, close_created (nat i) parts)
         | Inr part \<Rightarrow>
             create_loop faults disk numPartitions (i + 1) (parts[nat i := Some part]))
      else (None, parts))"
  by pat_completeness auto
termination
  by (relation "measure (\<lambda>(faults, disk, numPartitions, i, parts). nat (numPartitions - i))") auto

declare create_loop.simps [simp del]

text \<open>\<^verbatim>\<open>Registry.CreateTopic\<close>: the error, the registry afterwards, and the
  \<^verbatim>\<open>Partitions\<close> slice of the local \<^verbatim>\<open>topic\<close> when the call returns (the source drops
  it on an error; it is returned here so that the clean-up can be observed).
  \<^verbatim>\<open>make\<close> panics on a negative length.\<close>

definition CreateTopic ::
  "(nat \<Rightarrow> fault) \<Rightarrow> (string \<Rightarrow> int \<Rightarrow> Dir) \<Rightarrow> Registry \<Rightarrow> string \<Rightarrow> int
     \<Rightarrow> error option \<times> Registry \<times> Partition option list" where
  "CreateTopic faults disk r name numPartitions =
     (if topics r name \<noteq> None then (Some (TopicExists name), r, [])
      else if numPartitions < 0 then (Some Panic, r, [])
      else
        case create_loop faults (disk name) numPartitions 0
               (replicate (nat numPartitions) None) of
          (Some err, parts) \<Rightarrow> (Some err, r, parts)
        | (None, parts) \<Rightarrow>
            (None, r\<lparr>topics := (topics r)(name \<mapsto> \<lparr>Name = name, Partitions = parts\<rparr>)\<rparr>,
             parts))"

definition GetTopic :: "Registry \<Rightarrow> string \<Rightarrow> error + Topic" where
  "GetTopic r name =
     (case topics r name of None \<Rightarrow> Inl (TopicNotFound name) | Some topic \<Rightarrow> Inr topic)"

text \<open>The \<^verbatim>\<open>Partitions\<close> slice of \<open>n\<close> slots in which the slots below \<open>i\<close> hold the
  partitions \<open>ps 0, ps 1, \<dots>\<close> and the others are \<^verbatim>\<open>nil\<close>.\<close>

definition created :: "(int \<Rightarrow> Partition) \<Rightarrow> nat \<Rightarrow> nat \<Rightarrow> Partition option list" where
  "created ps i n = map (\<lambda>j. Some (ps (int j))) [0..<i] @ replicate (n - i) None"

text \<open>The partition that \<^verbatim>\<open>NewPartition\<close> returns for a directory without files.\<close>

definition fresh_partition :: "int \<Rightarrow> Partition" where
  "fresh_partition i =
     \<lparr>pid = i, dir = [(0, \<lparr>logFile = [], indexFile = []\<rparr>)],
      segments = [\<lparr>baseOffset = 0, logPos = 0, size_S = 0, nextOffset = 0,
                   indexEntries = [], closed = False\<rparr>]\<rparr>"

lemma read_full_empty: "0 < n \<Longrightarrow> read_full n [] pos = (Inl EOF, pos)"
  by (simp add: read_full_def)

lemma NewSegment_empty:
  "NewSegment NoFault [] b =
     (Inr \<lparr>baseOffset = b, logPos = 0, size_S = 0, nextOffset = b, indexEntries = [],
           closed = False\<rparr>,
      [(b, \<lparr>logFile = [], indexFile = []\<rparr>)])"
  by (simp add: NewSegment_def open_files_def recover_def read_full_empty load_index.simps
      recover_scan.simps)

lemma NewPartition_empty: "NewPartition NoFault [] i = Inr (fresh_partition i)"
  by (simp add: NewPartition_def LoadSegments_def fault_at_def NewSegment_empty
      fresh_partition_def)

lemma created_update: "i < n \<Longrightarrow> (created ps i n)[i := Some (ps (int i))] = created ps (Suc i) n"
  by (simp add: created_def list_update_append replicate_Suc [symmetric] Suc_diff_Suc
        del: replicate_Suc)
     (metis Suc_diff_Suc list_update_code(2) replicate_Suc)

lemma close_created_created:
  "i \<le> n \<Longrightarrow> close_created i (created ps i n) = created (\<lambda>j. Partition_Close (ps j)) i n"
  by (simp add: close_created_def created_def comp_def)

lemma create_loop_fails:
  assumes "0 \<le> i0" "i0 \<le> i" "i < n"
    and "\<forall>j. i0 \<le> j \<and> j < i \<longrightarrow> NewPartition (faults (nat j)) (disk j) j = Inr (ps j)"
    and "NewPartition (faults (nat i)) (disk i) i = Inl err"
  shows "create_loop faults disk n i0 (created ps (nat i0) (nat n))
         = (Some err, if err = Panic then created ps (nat i) (nat n)
                      else created (\<lambda>j. Partition_Close (ps j)) (nat i) (nat n))"
  using assms
proof (induction "nat (i - i0)" arbitrary: i0)
  case 0
  then have "i0 = i" by simp
  with 0 show ?case
    by (subst create_loop.simps) (simp add: close_created_created)
next
  case (Suc k)
  then have lt: "i0 < i" by linarith
  with Suc.prems have np: "NewPartition (faults (nat i0)) (disk i0) i0 = Inr (ps i0)" by simp
  have upd: "(created ps (nat i0) (nat n))[nat i0 := Some (ps i0)]
               = created ps (nat (i0 + 1)) (nat n)"
  proof -
    have "nat (i0 + 1) = Suc (nat i0)" "int (nat i0) = i0" "nat i0 < nat n"
      using Suc.prems lt by simp_all
    then show ?thesis
      using created_update [of "nat i0" "nat n" ps] by simp
  qed
  have IH: "create_loop faults disk n (i0 + 1) (created ps (nat (i0 + 1)) (nat n))
        = (Some err, if err = Panic then created ps (nat i) (nat n)
                     else created (\<lambda>j. Partition_Close (ps j)) (nat i) (nat n))"
    using Suc.hyps(2) Suc.prems lt by (intro Suc.hyps(1)) auto
  show ?case
    using lt Suc.prems(3) np upd IH by (subst create_loop.simps) simp
qed

lemma create_loop_done: "n \<le> i \<Longrightarrow> create_loop faults disk n i parts = (None, parts)"
  by (subst create_loop.simps) simp

lemma CreateTopic_error_registry:
  "CreateTopic faults disk r name n = (Some err, r', parts) \<Longrightarrow> r' = r"
  by (auto simp: CreateTopic_def split: if_splits prod.splits option.splits)

lemma Partition_Close_segments:
  "Partition_Close p = p\<lparr>segments := map (\<lambda>s. s\<lparr>closed := True\<rparr>) (segments p)\<rparr>"
proof -
  have "Segment_Close = (\<lambda>s. s\<lparr>closed := True\<rparr>)"
    by (rule ext) (simp add: Segment_Close_def)
  then show ?thesis by (simp add: Partition_Close_def)
qed

section \<open>The log format and the invariants of segments and partitions\<close>



lemma int64_range: "- (2 ^ 63) \<le> int64 x \<and> int64 x < 2 ^ 63"
  by (simp add: int64_def)




lemma length_be_bytes [simp]: "length (be_bytes n x) = n"
  by (induction n arbitrary: x) simp_all







definition frame :: "int \<Rightarrow> byte list \<Rightarrow> byte list" where
  "frame off payload =
     put_int64 off @ put_int32 (int32 (int (length payload))) @ put_uint32 (ChecksumIEEE payload)
       @ payload"

fun encode_log :: "int \<Rightarrow> byte list list \<Rightarrow> byte list" where
  "encode_log b [] = []"
| "encode_log b (x # xs) = frame b x @ encode_log (b + 1) xs"

lemma length_frame [simp]: "length (frame off payload) = 16 + length payload"
  by (simp add: frame_def put_int64_def put_int32_def put_uint32_def)



lemma frame_not_Nil [simp]: "frame off payload \<noteq> []"
  using length_frame [of off payload] by (metis add_is_0 length_0_conv zero_neq_numeral)

lemma encode_log_empty_iff [simp]: "encode_log b xs = [] \<longleftrightarrow> xs = []"
  by (cases xs) simp_all











lemma log_write_NoFault [simp]:
  "log_write NoFault k fl bs = (None, fl\<lparr>logFile := logFile fl @ bs\<rparr>)"
  by (simp add: log_write_def file_write_def)

lemma index_write_NoFault [simp]:
  "index_write NoFault k fl bs = (None, fl\<lparr>indexFile := indexFile fl @ bs\<rparr>)"
  by (simp add: index_write_def file_write_def)





















































































































section \<open>Concrete runs\<close>

definition no_faults :: "nat \<Rightarrow> fault" where
  "no_faults i = NoFault"

definition fault_on :: "nat \<Rightarrow> fault \<Rightarrow> nat \<Rightarrow> fault" where
  "fault_on k flt i = (if i = k then flt else NoFault)"

definition empty_disk :: "string \<Rightarrow> int \<Rightarrow> Dir" where
  "empty_disk name i = []"

text \<open>A partition directory whose only log file holds a record header with the
  length field \<open>-1\<close>, and the disk on which partition \<open>k\<close> of every topic has the
  directory \<open>d\<close> and the others have none.\<close>

definition negative_length_log :: Dir where
  "negative_length_log =
     [(0, \<lparr>logFile = put_int64 0 @ put_int32 (- 1) @ put_uint32 0, indexFile = []\<rparr>)]"

definition disk_with :: "int \<Rightarrow> Dir \<Rightarrow> string \<Rightarrow> int \<Rightarrow> Dir" where
  "disk_with k d name i = (if i = k then d else [])"

text \<open>\<open>n\<close> zero bytes appended to the log file of base offset \<open>b\<close>.\<close>

definition append_zero_bytes :: "nat \<Rightarrow> int \<Rightarrow> Dir \<Rightarrow> Dir" where
  "append_zero_bytes n b d =
     AList.update b ((open_files d b)\<lparr>logFile := logFile (open_files d b) @ replicate n 0\<rparr>) d"

text \<open>
  C1 (evaluation at the failing input).  On a new partition two appends succeed.  The
  records get the offsets 0 and 1 (the next offset is 1, then 2), but both calls
  return 0: \<^verbatim>\<open>Partition.Append\<close> returns the \<^verbatim>\<open>Offset\<close> field of its own \<^verbatim>\<open>entry\<close>,
  which \<^verbatim>\<open>Segment.Append\<close> received by value and never changed.
\<close>

theorem Partition_Append_returns_zero:
  "(case NewPartition NoFault [] 0 of
      Inl e \<Rightarrow> None
    | Inr p0 \<Rightarrow>
       (case Partition_Append NoFault p0 [1] of (r1, p1) \<Rightarrow>
       (case Partition_Append NoFault p1 [2] of (r2, p2) \<Rightarrow>
          Some (r1, Partition_NextOffset p1, r2, Partition_NextOffset p2))))
   = Some (Inr 0, 1, Inr 0, 2)"
  by code_simp

text \<open>
  C2 (evaluation at the failing input).  The second append of payload \<open>[2]\<close> returns
  offset 0, and reading offset 0 afterwards gives the payload \<open>[1]\<close> of the first
  record; the appended payload is at offset 1.
\<close>

theorem Partition_Read_of_returned_offset:
  "(case NewPartition NoFault [] 0 of
      Inl e \<Rightarrow> None
    | Inr p0 \<Rightarrow>
       (case Partition_Append NoFault p0 [1] of (r1, p1) \<Rightarrow>
       (case Partition_Append NoFault p1 [2] of (r2, p2) \<Rightarrow>
          Some (r2, fst (Partition_Read p2 0), fst (Partition_Read p2 1)))))
   = Some (Inr 0, Inr \<lparr>Offset = 0, Payload = [1]\<rparr>, Inr \<lparr>Offset = 1, Payload = [2]\<rparr>)"
  by code_simp

text \<open>
  C3 (evaluation at the failing input).  A partition with the records 0 and 1 is
  closed.  With 16 zero bytes appended to its log file, reopening succeeds with next
  offset 1, not 2, and the file keeps its 50 bytes: the zero bytes are a record of
  offset 0 with an empty payload, whose CRC is 0.  With 5 zero bytes appended,
  reopening fails with \<open>ErrUnexpectedEOF\<close>: \<^verbatim>\<open>recover\<close> returns a short read as an
  error and truncates nothing.
\<close>

theorem recover_zero_tail:
  "(case NewPartition NoFault [] 0 of
      Inl e \<Rightarrow> None
    | Inr p0 \<Rightarrow>
       (case Partition_Append NoFault p0 [1] of (r1, p1) \<Rightarrow>
       (case Partition_Append NoFault p1 [2] of (r2, p2) \<Rightarrow>
          Some (Partition_NextOffset p2,
                map_sum id (\<lambda>p. (Partition_NextOffset p, length (logFile (open_files (dir p) 0))))
                  (NewPartition NoFault (append_zero_bytes 16 0 (dir (Partition_Close p2))) 0),
                map_sum id Partition_NextOffset
                  (NewPartition NoFault (append_zero_bytes 5 0 (dir (Partition_Close p2))) 0)))))
   = Some (2, Inr (1, 50), Inl ErrUnexpectedEOF)"
  by code_simp

text \<open>
  C7.  When \<^verbatim>\<open>Segment.Append\<close> returns an error, whichever write failed and however
  much of it reached the file, \<^verbatim>\<open>nextOffset\<close> is what it was before the call.
\<close>

theorem Segment_Append_error_keeps_nextOffset:
  "Segment_Append flt fl s entry = (Some err, fl', s') \<Longrightarrow> nextOffset s' = nextOffset s"
  by (auto simp: Segment_Append_def Let_def split: prod.splits if_splits)

theorem Segment_Append_error_keeps_nextOffset_witness:
  "Segment_Append (WriteFault 5 1) \<lparr>logFile = [], indexFile = []\<rparr>
     \<lparr>baseOffset = 0, logPos = 0, size_S = 0, nextOffset = 0, indexEntries = [], closed = False\<rparr>
     \<lparr>Offset = 0, Payload = [1]\<rparr>
   = (Some IOError,
      \<lparr>logFile = [0, 0, 0, 0, 0, 0, 0, 0, 0, 0, 0, 1, 165, 5, 223, 27, 1],
         indexFile = [0, 0, 0, 0, 0]\<rparr>,
      \<lparr>baseOffset = 0, logPos = 17, size_S = 17, nextOffset = 0, indexEntries = [],
         closed = False\<rparr>)
   \<and> nextOffset \<lparr>baseOffset = 0, logPos = 17, size_S = 17, nextOffset = 0, indexEntries = [],
         closed = False\<rparr>
     = nextOffset \<lparr>baseOffset = 0, logPos = 0, size_S = 0, nextOffset = 0, indexEntries = [],
         closed = False\<rparr>"
proof -
  have run: "Segment_Append (WriteFault 5 1) \<lparr>logFile = [], indexFile = []\<rparr>
     \<lparr>baseOffset = 0, logPos = 0, size_S = 0, nextOffset = 0, indexEntries = [], closed = False\<rparr>
     \<lparr>Offset = 0, Payload = [1]\<rparr>
   = (Some IOError,
      \<lparr>logFile = [0, 0, 0, 0, 0, 0, 0, 0, 0, 0, 0, 1, 165, 5, 223, 27, 1],
         indexFile = [0, 0, 0, 0, 0]\<rparr>,
      \<lparr>baseOffset = 0, logPos = 17, size_S = 17, nextOffset = 0, indexEntries = [],
         closed = False\<rparr>)"
    by code_simp
  show ?thesis
    using run Segment_Append_error_keeps_nextOffset [OF run] by simp
qed

text \<open>
  C4 (counterexample).  \<^verbatim>\<open>CreateTopic\<close> with a partition count of 0 on an empty
  registry returns no error and registers the topic, with no partitions.
\<close>

theorem CreateTopic_zero_registers:
  "fst (CreateTopic no_faults empty_disk (NewRegistry ''data'') ''t'' 0) = None
   \<and> topics (fst (snd (CreateTopic no_faults empty_disk (NewRegistry ''data'') ''t'' 0))) ''t''
     = Some \<lparr>Name = ''t'', Partitions = []\<rparr>"
  by (simp add: CreateTopic_def create_loop_done NewRegistry_def)

text \<open>
  C4 (amended).  The source checks the name only.  With a partition count of 0,
  \<^verbatim>\<open>CreateTopic\<close> fails with the already-exists error, the registry unchanged, when the
  name is registered; otherwise it opens nothing, returns no error and registers the
  topic with an empty \<^verbatim>\<open>Partitions\<close> slice.  There is no invalid-argument error.
\<close>

theorem CreateTopic_zero_partitions:
  "CreateTopic faults disk r name 0 =
     (if topics r name \<noteq> None then (Some (TopicExists name), r, [])
      else (None, r\<lparr>topics := (topics r)(name \<mapsto> \<lparr>Name = name, Partitions = []\<rparr>)\<rparr>, []))"
  by (simp add: CreateTopic_def create_loop_done)

theorem CreateTopic_zero_partitions_witness:
  "CreateTopic no_faults empty_disk (NewRegistry ''data'') ''t'' 0 =
     (None, \<lparr>dataDir = ''data'',
             topics = (Map.empty)(''t'' \<mapsto> \<lparr>Name = ''t'', Partitions = []\<rparr>)\<rparr>, [])"
  using CreateTopic_zero_partitions [of no_faults empty_disk "NewRegistry ''data''" "''t''"]
  by (simp add: NewRegistry_def)

text \<open>
  C5.  (1) When the name is registered, \<^verbatim>\<open>CreateTopic\<close> returns the already-exists
  error and the registry as it was.  (2) When the name is new, the partitions
  \<open>0, \<dots>, i - 1\<close> open (as \<open>ps 0, \<dots>\<close>) and \<^verbatim>\<open>NewPartition\<close> for partition \<open>i < n\<close>
  returns the error \<open>err\<close>, the call returns \<open>err\<close> and the registry as it was, and in
  the slice it built the slots below \<open>i\<close> hold the created partitions with every
  segment of theirs closed and nothing else changed (same directory content, same
  segments otherwise), the other slots being \<^verbatim>\<open>nil\<close>.  (3) Whatever error the call
  returns, the registry is unchanged.  (4) A panic inside \<^verbatim>\<open>NewPartition\<close> is not a
  returned error: it leaves \<^verbatim>\<open>CreateTopic\<close> without the clean-up, the created partitions
  stay open, and the registry is as it was.
\<close>

theorem CreateTopic_failure:
  "(topics r name \<noteq> None \<longrightarrow>
      CreateTopic faults disk r name n = (Some (TopicExists name), r, []))
   \<and> (topics r name = None \<and> 0 \<le> i \<and> i < n
       \<and> (\<forall>j. 0 \<le> j \<and> j < i \<longrightarrow>
              NewPartition (faults (nat j)) (disk name j) j = Inr (ps j))
       \<and> NewPartition (faults (nat i)) (disk name i) i = Inl err \<and> err \<noteq> Panic \<longrightarrow>
      CreateTopic faults disk r name n
        = (Some err, r,
           created (\<lambda>j. (ps j)\<lparr>segments := map (\<lambda>s. s\<lparr>closed := True\<rparr>) (segments (ps j))\<rparr>)
             (nat i) (nat n)))
   \<and> (CreateTopic faults disk r name n = (Some e, r', parts) \<longrightarrow> r' = r)
   \<and> (topics r name = None \<and> 0 \<le> i \<and> i < n
       \<and> (\<forall>j. 0 \<le> j \<and> j < i \<longrightarrow>
              NewPartition (faults (nat j)) (disk name j) j = Inr (ps j))
       \<and> NewPartition (faults (nat i)) (disk name i) i = Inl Panic \<longrightarrow>
      CreateTopic faults disk r name n = (Some Panic, r, created ps (nat i) (nat n)))"
proof (intro conjI impI)
  assume "topics r name \<noteq> None"
  then show "CreateTopic faults disk r name n = (Some (TopicExists name), r, [])"
    by (simp add: CreateTopic_def)
next
  assume a: "topics r name = None \<and> 0 \<le> i \<and> i < n
       \<and> (\<forall>j. 0 \<le> j \<and> j < i \<longrightarrow>
              NewPartition (faults (nat j)) (disk name j) j = Inr (ps j))
       \<and> NewPartition (faults (nat i)) (disk name i) i = Inl err \<and> err \<noteq> Panic"
  then have "create_loop faults (disk name) n 0 (created ps (nat 0) (nat n))
         = (Some err, if err = Panic then created ps (nat i) (nat n)
                      else created (\<lambda>j. Partition_Close (ps j)) (nat i) (nat n))"
    by (intro create_loop_fails) auto
  moreover have "created ps (nat 0) (nat n) = replicate (nat n) None"
    by (simp add: created_def)
  ultimately show "CreateTopic faults disk r name n
        = (Some err, r,
           created (\<lambda>j. (ps j)\<lparr>segments := map (\<lambda>s. s\<lparr>closed := True\<rparr>) (segments (ps j))\<rparr>)
             (nat i) (nat n))"
    using a by (simp add: CreateTopic_def Partition_Close_segments)
next
  assume "CreateTopic faults disk r name n = (Some e, r', parts)"
  then show "r' = r" by (rule CreateTopic_error_registry)
next
  assume a: "topics r name = None \<and> 0 \<le> i \<and> i < n
       \<and> (\<forall>j. 0 \<le> j \<and> j < i \<longrightarrow>
              NewPartition (faults (nat j)) (disk name j) j = Inr (ps j))
       \<and> NewPartition (faults (nat i)) (disk name i) i = Inl Panic"
  then have "create_loop faults (disk name) n 0 (created ps (nat 0) (nat n))
         = (Some Panic, if Panic = Panic then created ps (nat i) (nat n)
                      else created (\<lambda>j. Partition_Close (ps j)) (nat i) (nat n))"
    by (intro create_loop_fails) auto
  moreover have "created ps (nat 0) (nat n) = replicate (nat n) None"
    by (simp add: created_def)
  ultimately show "CreateTopic faults disk r name n = (Some Panic, r, created ps (nat i) (nat n))"
    using a by (simp add: CreateTopic_def)
qed

theorem CreateTopic_failure_witness:
  "CreateTopic (fault_on 2 (OpenFault 0 1)) empty_disk (NewRegistry ''data'') ''t'' 3
     = (Some IOError, NewRegistry ''data'',
        [Some \<lparr>pid = 0, dir = [(0, \<lparr>logFile = [], indexFile = []\<rparr>)],
                segments = [\<lparr>baseOffset = 0, logPos = 0, size_S = 0, nextOffset = 0,
                              indexEntries = [], closed = True\<rparr>]\<rparr>,
         Some \<lparr>pid = 1, dir = [(0, \<lparr>logFile = [], indexFile = []\<rparr>)],
                segments = [\<lparr>baseOffset = 0, logPos = 0, size_S = 0, nextOffset = 0,
                              indexEntries = [], closed = True\<rparr>]\<rparr>,
         None])
   \<and> CreateTopic no_faults (disk_with 1 negative_length_log) (NewRegistry ''data'') ''t'' 3
     = (Some Panic, NewRegistry ''data'', [Some (fresh_partition 0), None, None])"
proof -
  have opens: "\<forall>j. 0 \<le> j \<and> j < 2 \<longrightarrow>
      NewPartition (fault_on 2 (OpenFault 0 1) (nat j)) (empty_disk ''t'' j) j
        = Inr (fresh_partition j)"
    by (auto simp: fault_on_def empty_disk_def NewPartition_empty)
  have fails:
    "NewPartition (fault_on 2 (OpenFault 0 1) (nat 2)) (empty_disk ''t'' 2) 2 = Inl IOError"
    by (simp add: fault_on_def empty_disk_def NewPartition_def LoadSegments_def fault_at_def
        NewSegment_def)
  have h1: "topics (NewRegistry ''data'') ''t'' = None \<and> (0::int) \<le> 2 \<and> (2::int) < 3
       \<and> (\<forall>j. 0 \<le> j \<and> j < 2 \<longrightarrow>
             NewPartition (fault_on 2 (OpenFault 0 1) (nat j)) (empty_disk ''t'' j) j
               = Inr (fresh_partition j))
       \<and> NewPartition (fault_on 2 (OpenFault 0 1) (nat 2)) (empty_disk ''t'' 2) 2 = Inl IOError
       \<and> IOError \<noteq> Panic"
    using opens fails by (simp add: NewRegistry_def)
  have opens': "\<forall>j. 0 \<le> j \<and> j < 1 \<longrightarrow>
      NewPartition (no_faults (nat j)) (disk_with 1 negative_length_log ''t'' j) j
        = Inr (fresh_partition j)"
    by (auto simp: no_faults_def disk_with_def NewPartition_empty)
  have panics:
    "NewPartition (no_faults (nat 1)) (disk_with 1 negative_length_log ''t'' 1) 1 = Inl Panic"
    by code_simp
  have h2: "topics (NewRegistry ''data'') ''t'' = None \<and> (0::int) \<le> 1 \<and> (1::int) < 3
       \<and> (\<forall>j. 0 \<le> j \<and> j < 1 \<longrightarrow>
             NewPartition (no_faults (nat j)) (disk_with 1 negative_length_log ''t'' j) j
               = Inr (fresh_partition j))
       \<and> NewPartition (no_faults (nat 1)) (disk_with 1 negative_length_log ''t'' 1) 1 = Inl Panic"
    using opens' panics by (simp add: NewRegistry_def)
  have cr: "created (\<lambda>j. (fresh_partition j)\<lparr>segments :=
                 map (\<lambda>s. s\<lparr>closed := True\<rparr>) (segments (fresh_partition j))\<rparr>) (nat 2) (nat 3)
     = [Some \<lparr>pid = 0, dir = [(0, \<lparr>logFile = [], indexFile = []\<rparr>)],
                segments = [\<lparr>baseOffset = 0, logPos = 0, size_S = 0, nextOffset = 0,
                              indexEntries = [], closed = True\<rparr>]\<rparr>,
         Some \<lparr>pid = 1, dir = [(0, \<lparr>logFile = [], indexFile = []\<rparr>)],
                segments = [\<lparr>baseOffset = 0, logPos = 0, size_S = 0, nextOffset = 0,
                              indexEntries = [], closed = True\<rparr>]\<rparr>,
         None]"
    by (simp add: created_def eval_nat_numeral fresh_partition_def)
  have cr': "created fresh_partition (nat 1) (nat 3) = [Some (fresh_partition 0), None, None]"
    by (simp add: created_def eval_nat_numeral)
  note inst = CreateTopic_failure [of "NewRegistry ''data''" "''t''" "fault_on 2 (OpenFault 0 1)"
        empty_disk 3 2 fresh_partition IOError]
  note inst' = CreateTopic_failure [of "NewRegistry ''data''" "''t''" no_faults
        "disk_with 1 negative_length_log" 3 1 fresh_partition]
  have r: "CreateTopic (fault_on 2 (OpenFault 0 1)) empty_disk (NewRegistry ''data'') ''t'' 3
        = (Some IOError, NewRegistry ''data'',
           created (\<lambda>j. (fresh_partition j)\<lparr>segments :=
                 map (\<lambda>s. s\<lparr>closed := True\<rparr>) (segments (fresh_partition j))\<rparr>) (nat 2) (nat 3))"
    using inst [THEN conjunct2, THEN conjunct1, THEN mp, OF h1] .
  have r': "CreateTopic no_faults (disk_with 1 negative_length_log) (NewRegistry ''data'') ''t'' 3
        = (Some Panic, NewRegistry ''data'', created fresh_partition (nat 1) (nat 3))"
    using inst' [THEN conjunct2, THEN conjunct2, THEN conjunct2, THEN mp, OF h2] .
  show ?thesis
    using r r' unfolding cr cr' by blast
qed













end
